theory Spec2Isabelle
  imports Complex_Main "HOL-Library.Sublist"
begin

section \<open>Campus Air Quality Monitor: the local web server of app.py\<close>

text \<open>
  The program is one Python script. It declares five Flask routes inside
  \<open>create_app\<close>, a browser-opening task \<open>open_browser\<close> and the
  entry point \<open>main\<close>. Everything the script does to the outside world (the
  file system, standard output, the thread it starts, the call of \<open>app.run\<close>)
  is made explicit below: the file system is a map, output and calls are a trace of
  events, and an exception is a value.
\<close>

subsection \<open>Paths and the file system\<close>

text \<open>
  A path is the list of its components, as a \<open>pathlib.Path\<close> holds its
  \<open>parts\<close>. File content is a list of bytes (a HOL \<open>char\<close> is a byte).
  A file system gives, for a path, what \<open>os.stat\<close> finds there: symbolic links
  are followed, so what is found is a regular file or a directory. A path at which
  \<open>os.stat\<close> fails (nothing is there, or a link that leads nowhere) has no
  entry.
\<close>

type_synonym path = "string list"
type_synonym bytes = "char list"

datatype entry = File bytes | Directory

type_synonym filesystem = "path \<rightharpoonup> entry"

text \<open>Python's \<open>str.split(sep)\<close> for a one-character separator.\<close>

fun split_on :: "char \<Rightarrow> string \<Rightarrow> string list" where
  "split_on sep [] = [[]]"
| "split_on sep (x # xs) =
     (if x = sep then [] # split_on sep xs
      else (case split_on sep xs of
              [] \<Rightarrow> [[x]]
            | r # rs \<Rightarrow> (x # r) # rs))"

text \<open>
  \<open>Path(s).parts\<close> for a relative string: empty components and \<open>.\<close> are
  dropped, \<open>..\<close> is kept.
\<close>

definition parts :: "string \<Rightarrow> path" where
  "parts s = filter (\<lambda>c. c \<noteq> [] \<and> c \<noteq> ''.'') (split_on CHR ''/'' s)"

text \<open>\<open>p / s\<close> of pathlib: an absolute right operand replaces the left one.\<close>

definition joinpath :: "path \<Rightarrow> string \<Rightarrow> path" where
  "joinpath p s = (if s \<noteq> [] \<and> hd s = CHR ''/'' then parts s else p @ parts s)"

text \<open>\<open>Path.parent\<close>: the path without its last component.\<close>

definition parent :: "path \<Rightarrow> path" where
  "parent p = butlast p"

text \<open>
  \<open>Path.exists()\<close>: it calls \<open>os.stat\<close> and answers whether that succeeds,
  so the path leads, links followed, to a file or a directory of whatever kind.
\<close>

definition exists :: "filesystem \<Rightarrow> path \<Rightarrow> bool" where
  "exists fs p = (fs p \<noteq> None)"

text \<open>
  What is on the disk at a path, links not followed (\<open>os.lstat\<close>): a regular
  file, a directory, or a symbolic link with its target (taken as a whole path).
  \<open>stat\<close> follows the link at the end of a path, giving up after
  \<open>max_links\<close> links as the kernel does; \<open>stat_view\<close> is the file system
  that \<open>os.stat\<close> shows of a disk. Links in the inner components of a path are
  not modelled.
\<close>

datatype node = Regular bytes | Folder | Symlink path

type_synonym disk = "path \<rightharpoonup> node"

fun stat :: "nat \<Rightarrow> disk \<Rightarrow> path \<Rightarrow> entry option" where
  "stat 0 d p = None"
| "stat (Suc n) d p =
     (case d p of
        None \<Rightarrow> None
      | Some (Regular content) \<Rightarrow> Some (File content)
      | Some Folder \<Rightarrow> Some Directory
      | Some (Symlink target) \<Rightarrow> stat n d target)"

definition max_links :: nat where
  "max_links = 40"

definition stat_view :: "disk \<Rightarrow> filesystem" where
  "stat_view d p = stat (Suc max_links) d p"

subsection \<open>The file-serving primitive and the URL rules of the framework\<close>

text \<open>
  \<open>posixpath.normpath\<close> on the components of a path: \<open>new_comps\<close> is the
  list built so far; \<open>initial_slashes\<close> says whether the path is absolute.
\<close>

fun normpath_comps :: "bool \<Rightarrow> string list \<Rightarrow> string list \<Rightarrow> string list" where
  "normpath_comps initial_slashes new_comps [] = new_comps"
| "normpath_comps initial_slashes new_comps (c # comps) =
     (if c = [] \<or> c = ''.'' then normpath_comps initial_slashes new_comps comps
      else if c \<noteq> ''..'' \<or> (\<not> initial_slashes \<and> new_comps = [])
                \<or> (new_comps \<noteq> [] \<and> last new_comps = ''..'')
      then normpath_comps initial_slashes (new_comps @ [c]) comps
      else if new_comps \<noteq> [] then normpath_comps initial_slashes (butlast new_comps) comps
      else normpath_comps initial_slashes new_comps comps)"

datatype http_exception = NotFound

text \<open>
  Modelled from the spec: \<open>send_from_directory\<close> (with the \<open>safe_join\<close> it
  calls) is Flask's, not part of this repository. Section 4.1 of the specification
  gives its contract: the raw file bytes with HTTP 200 when the file exists, HTTP 404
  when it is missing, and a path that leaves the base directory through traversal
  sequences is rejected. The model follows the primitive's documented steps: the
  file name is normalised, a name that is absolute or still begins with \<open>..\<close>
  after normalisation is refused, the rest is joined to the directory, and only a
  regular file is served.
\<close>

definition safe_join :: "path \<Rightarrow> string \<Rightarrow> path option" where
  "safe_join directory filename =
     (if filename \<noteq> [] \<and> hd filename = CHR ''/'' then None
      else let comps = normpath_comps False [] (split_on CHR ''/'' filename)
           in if comps \<noteq> [] \<and> hd comps = ''..'' then None
              else Some (directory @ comps))"

definition send_from_directory :: "filesystem \<Rightarrow> path \<Rightarrow> string \<Rightarrow> http_exception + bytes" where
  "send_from_directory fs directory filename =
     (case safe_join directory filename of
        None \<Rightarrow> Inl NotFound
      | Some path_str \<Rightarrow>
          (case fs path_str of
             Some (File content) \<Rightarrow> Inr content
           | _ \<Rightarrow> Inl NotFound))"

text \<open>The status code of a view's result: a served file is 200, \<open>NotFound\<close> is 404.\<close>

fun status_code :: "http_exception + bytes \<Rightarrow> nat" where
  "status_code (Inr content) = 200"
| "status_code (Inl NotFound) = 404"

text \<open>
  Modelled from the spec: the matching of a URL rule is the framework's. A rule is
  either a fixed path or a fixed prefix followed by one \<open><path:...>\<close> parameter;
  section 4.1 says that the parameter is a non-empty segment that may contain
  sub-paths. A \<open>path\<close> parameter is not empty and does not begin with a slash.
\<close>

datatype rule = Static string | WithPath string

definition path_converter :: "string \<Rightarrow> bool" where
  "path_converter s = (s \<noteq> [] \<and> hd s \<noteq> CHR ''/'')"

fun strip_prefix :: "string \<Rightarrow> string \<Rightarrow> string option" where
  "strip_prefix [] s = Some s"
| "strip_prefix (p # ps) [] = None"
| "strip_prefix (p # ps) (c # cs) = (if p = c then strip_prefix ps cs else None)"

fun match_rule :: "rule \<Rightarrow> string \<Rightarrow> string option" where
  "match_rule (Static r) url = (if url = r then Some [] else None)"
| "match_rule (WithPath r) url =
     (case strip_prefix r url of
        None \<Rightarrow> None
      | Some arg \<Rightarrow> if path_converter arg then Some arg else None)"

subsection \<open>create\_app: the five views and the route table\<close>

text \<open>
  \<open>script_file\<close> is the value of \<open>__file__\<close>; every view computes
  \<open>project_root\<close> from it as the script does.
\<close>

definition project_root :: "path \<Rightarrow> path" where
  "project_root script_file = parent script_file"

definition index :: "filesystem \<Rightarrow> path \<Rightarrow> http_exception + bytes" where
  "index fs script_file =
     send_from_directory fs (joinpath (project_root script_file) ''pages'') ''index.html''"

definition dashboard :: "filesystem \<Rightarrow> path \<Rightarrow> http_exception + bytes" where
  "dashboard fs script_file =
     send_from_directory fs (joinpath (project_root script_file) ''pages'') ''dashboard.html''"

definition dashboard_with_location :: "filesystem \<Rightarrow> path \<Rightarrow> string \<Rightarrow> http_exception + bytes" where
  "dashboard_with_location fs script_file location =
     send_from_directory fs (joinpath (project_root script_file) ''pages'') ''dashboard.html''"

definition js_files :: "filesystem \<Rightarrow> path \<Rightarrow> string \<Rightarrow> http_exception + bytes" where
  "js_files fs script_file filename =
     send_from_directory fs (joinpath (project_root script_file) ''js'') filename"

definition data_files :: "filesystem \<Rightarrow> path \<Rightarrow> string \<Rightarrow> http_exception + bytes" where
  "data_files fs script_file filename =
     send_from_directory fs (joinpath (project_root script_file) ''data'') filename"

datatype endpoint =
  EIndex | EDashboard | EDashboardWithLocation | EJsFiles | EDataFiles

text \<open>The route table, in the order of the decorators.\<close>

definition create_app :: "(rule \<times> endpoint) list" where
  "create_app =
     [(Static ''/'', EIndex),
      (Static ''/dashboard'', EDashboard),
      (WithPath ''/dashboard/'', EDashboardWithLocation),
      (WithPath ''/js/'', EJsFiles),
      (WithPath ''/data/'', EDataFiles)]"

fun view :: "filesystem \<Rightarrow> path \<Rightarrow> endpoint \<Rightarrow> string \<Rightarrow> http_exception + bytes" where
  "view fs script_file EIndex arg = index fs script_file"
| "view fs script_file EDashboard arg = dashboard fs script_file"
| "view fs script_file EDashboardWithLocation arg = dashboard_with_location fs script_file arg"
| "view fs script_file EJsFiles arg = js_files fs script_file arg"
| "view fs script_file EDataFiles arg = data_files fs script_file arg"

text \<open>
  The first rule of the table that matches the URL of a GET request selects the
  view. \<open>None\<close>: no rule of the table matches and no view of the script runs.
\<close>

fun route :: "(rule \<times> endpoint) list \<Rightarrow> string \<Rightarrow> (endpoint \<times> string) option" where
  "route [] url = None"
| "route ((r, e) # rest) url =
     (case match_rule r url of
        Some arg \<Rightarrow> Some (e, arg)
      | None \<Rightarrow> route rest url)"

definition handle_get :: "filesystem \<Rightarrow> path \<Rightarrow> string \<Rightarrow> (http_exception + bytes) option" where
  "handle_get fs script_file url =
     (case route create_app url of
        None \<Rightarrow> None
      | Some (e, arg) \<Rightarrow> Some (view fs script_file e arg))"

text \<open>
  The resolved path of section 4.1 of the specification, which must stay within
  the designated base directory: the path that the components of a file name lead
  to from a directory, where an empty component and \<open>.\<close> stay in place and
  \<open>..\<close> goes to the parent. This definition follows the words of the
  specification; the views do not call it. It is what the theorems on path traversal
  compare \<open>send_from_directory\<close> with.
\<close>

fun resolve :: "path \<Rightarrow> string list \<Rightarrow> path" where
  "resolve p [] = p"
| "resolve p (c # cs) =
     (if c = [] \<or> c = ''.'' then resolve p cs
      else if c = ''..'' then resolve (butlast p) cs
      else resolve (p @ [c]) cs)"

text \<open>
  A file name climbs when its normalised form begins with \<open>..\<close>: somewhere in
  the name there are more \<open>..\<close> than components before them. It is the
  condition on which \<open>safe_join\<close> refuses a relative name.
\<close>

definition climbs :: "string \<Rightarrow> bool" where
  "climbs filename =
     (let comps = normpath_comps False [] (split_on CHR ''/'' filename)
      in comps \<noteq> [] \<and> hd comps = ''..'')"

text \<open>
  Modelled from the framework, which is not part of this repository:
  \<open>send_from_directory\<close> hands the file to \<open>send_file\<close>, which by default
  answers conditionally (\<open>make_conditional\<close>). What the headers of the request
  make it decide is a parameter here: \<open>Full\<close>, the whole file with status 200,
  for a request with no \<open>Range\<close> and no conditional header;
  \<open>Partial first_byte last_byte\<close>, those bytes with status 206, for a
  \<open>Range\<close> header that the file satisfies; \<open>NotModified\<close>, status 304 and
  no body, for an \<open>If-None-Match\<close> or \<open>If-Modified-Since\<close> header that the
  file matches; \<open>NotSatisfiable\<close>, the error 416, for a \<open>Range\<close> that the
  file does not satisfy. A reply is a status with a body, or an HTTP error with its
  status (the body of the error page is not modelled).
\<close>

datatype conditional = Full | Partial nat nat | NotModified | NotSatisfiable

datatype reply = Reply nat bytes | Abort nat

fun reply_status :: "reply \<Rightarrow> nat" where
  "reply_status (Reply code body) = code"
| "reply_status (Abort code) = code"

fun make_conditional :: "conditional \<Rightarrow> bytes \<Rightarrow> reply" where
  "make_conditional Full content = Reply 200 content"
| "make_conditional (Partial first_byte last_byte) content =
     Reply 206 (take (Suc last_byte - first_byte) (drop first_byte content))"
| "make_conditional NotModified content = Reply 304 []"
| "make_conditional NotSatisfiable content = Abort 416"

text \<open>
  The reply to a GET request: the view that the route table selects runs, and its
  result is answered as the headers decide; an HTTP exception of the view is
  answered with its status.
\<close>

definition get_response ::
  "filesystem \<Rightarrow> path \<Rightarrow> string \<Rightarrow> conditional \<Rightarrow> reply option" where
  "get_response fs script_file url decision =
     (case handle_get fs script_file url of
        None \<Rightarrow> None
      | Some (Inl e) \<Rightarrow> Some (Abort (status_code (Inl e)))
      | Some (Inr content) \<Rightarrow> Some (make_conditional decision content))"

subsection \<open>Exceptions, events and the world\<close>

text \<open>
  The exceptions the script tells apart: \<open>KeyboardInterrupt\<close>, the
  \<open>SystemExit\<close> that \<open>sys.exit\<close> raises, and an instance of \<open>Exception\<close>
  with the text \<open>str(e)\<close>. The first two are not instances of \<open>Exception\<close>.
  A \<open>SystemExit\<close> carries an integer, as the \<open>sys.exit(1)\<close> of the script
  and of the server library do.
\<close>

datatype exn = KeyboardInterrupt | SystemExit int | Exception string

datatype 'a outcome = Returns 'a | Raises exn

datatype event =
    Print string
  | Sleep real
  | WebbrowserOpen string
  | ThreadStart bool
  | AppRun string nat bool

record world =
  files :: filesystem
  trace :: "event list"

definition emit :: "event \<Rightarrow> world \<Rightarrow> world" where
  "emit ev w = w\<lparr>trace := trace w @ [ev]\<rparr>"

definition print :: "string \<Rightarrow> world \<Rightarrow> world" where
  "print s w = emit (Print s) w"

fun prints :: "string list \<Rightarrow> world \<Rightarrow> world" where
  "prints [] w = w"
| "prints (s # ss) w = prints ss (print s w)"

text \<open>What a run that leads from \<open>w\<close> to \<open>w'\<close> has added to the trace.\<close>

definition emitted :: "world \<Rightarrow> world \<Rightarrow> event list" where
  "emitted w w' = drop (length (trace w)) (trace w')"

subsection \<open>open\_browser\<close>

text \<open>
  \<open>opened\<close> is what \<open>webbrowser.open\<close> does when called: it returns True when
  a browser was launched, False when none could be, or it raises.
\<close>

definition open_browser :: "bool outcome \<Rightarrow> world \<Rightarrow> unit outcome \<times> world" where
  "open_browser opened w =
     (let w1 = emit (Sleep 1.5) w;
          w2 = emit (WebbrowserOpen ''http://localhost:5000'') w1
      in case opened of
           Returns b \<Rightarrow> (Returns (), print ''Browser opened successfully!'' w2)
         | Raises (Exception e) \<Rightarrow>
             (Returns (),
              prints [''Could not open browser automatically: '' @ e,
                      ''Please open http://localhost:5000 in your browser''] w2)
         | Raises x \<Rightarrow> (Raises x, w2))"

subsection \<open>main\<close>

definition required_files :: "string list" where
  "required_files =
     [''pages/index.html'', ''pages/dashboard.html'', ''js/data-manager.js'',
      ''data/locations.json'']"

text \<open>The loop over \<open>required_files\<close>, with \<open>missing_files\<close> as accumulator.\<close>

fun check_required :: "filesystem \<Rightarrow> path \<Rightarrow> string list \<Rightarrow> string list \<Rightarrow> string list" where
  "check_required fs proot [] missing_files = missing_files"
| "check_required fs proot (file_path # rest) missing_files =
     check_required fs proot rest
       (if \<not> exists fs (joinpath proot file_path) then missing_files @ [file_path]
        else missing_files)"

definition banner :: "string list" where
  "banner =
     [[CHR 0xF0, CHR 0x9F, CHR 0x8C, CHR 0xAC, CHR 0xEF, CHR 0xB8, CHR 0x8F]
        @ ''  Campus Air Quality Monitor'',
      ''=============================='',
      '''',
      ''Starting local web server...'',
      ''Server will be available at: http://localhost:5000'',
      '''',
      ''Navigation:'',
      ''- Home Page: http://localhost:5000'',
      ''- Dashboard: Click location cards to view real-time data'',
      '''',
      ''Features:'',
      ''- Real-time CO2 and humidity monitoring'',
      ''- Add/edit/delete locations'',
      ''- Historical data charts'',
      ''- ThingSpeak API integration'',
      '''',
      ''Press Ctrl+C to stop the server'',
      '''']"

definition farewell :: "string list" where
  "farewell =
     [[CHR 0x0A, CHR 0xF0, CHR 0x9F, CHR 0x91, CHR 0x8B] @ '' Server stopped by user'',
      ''Thanks for using Campus Air Quality Monitor!'']"

definition error_starting :: "string \<Rightarrow> string" where
  "error_starting e = [CHR 0xE2, CHR 0x9D, CHR 0x8C] @ '' Error starting server: '' @ e"

text \<open>
  What the library calls inside the \<open>try\<close> block do: \<open>None\<close> is a normal
  return, \<open>Some x\<close> is the exception raised. \<open>thread_start\<close> is
  \<open>browser_thread.start()\<close>; the event \<open>ThreadStart daemon\<close> records a
  thread that did start. \<open>app_run\<close> is \<open>app.run\<close>, which sets the server
  up and blocks while it serves; the event \<open>AppRun host port debug\<close> records
  the call.
\<close>

record env =
  thread_start :: "exn option"
  app_run :: "exn option"

text \<open>
  Modelled from the framework, which is not part of this repository: \<open>app.run\<close>
  ends in the \<open>serve_forever\<close> of the development server, whose body is
  \<open>try: ... except KeyboardInterrupt: pass\<close>. \<open>raised\<close> is what is raised
  while the server serves; the operator's interrupt is caught there, and
  \<open>app.run\<close> returns.
\<close>

definition serve_forever :: "exn option \<Rightarrow> exn option" where
  "serve_forever raised =
     (case raised of
        Some KeyboardInterrupt \<Rightarrow> None
      | r \<Rightarrow> r)"

text \<open>The environment in which the server comes up and \<open>raised\<close> ends the serving.\<close>

definition serving_env :: "exn option \<Rightarrow> env" where
  "serving_env raised = \<lparr>thread_start = None, app_run = serve_forever raised\<rparr>"

text \<open>The body of the \<open>try\<close> block of \<open>main\<close>.\<close>

definition try_body :: "env \<Rightarrow> world \<Rightarrow> unit outcome \<times> world" where
  "try_body ev w =
     (case thread_start ev of
           Some x \<Rightarrow> (Raises x, w)
         | None \<Rightarrow>
             (let w1 = emit (ThreadStart True) w;
                  w2 = print ''Starting server on http://localhost:5000...'' w1;
                  w3 = emit (AppRun ''localhost'' 5000 False) w2
              in case app_run ev of
                   Some x \<Rightarrow> (Raises x, w3)
                 | None \<Rightarrow> (Returns (), w3)))"

definition main :: "env \<Rightarrow> path \<Rightarrow> world \<Rightarrow> unit outcome \<times> world" where
  "main ev script_file w =
     (let proot = project_root script_file;
          missing_files = check_required (files w) proot required_files []
      in if missing_files \<noteq> [] then
           (Raises (SystemExit 1),
            prints (''Error: Missing required files!''
                      # map (\<lambda>file. ''  - '' @ file) missing_files) w)
         else
           (case try_body ev (prints banner w) of
              (Returns u, w') \<Rightarrow> (Returns (), w')
            | (Raises KeyboardInterrupt, w') \<Rightarrow> (Returns (), prints farewell w')
            | (Raises (Exception e), w') \<Rightarrow>
                (Raises (SystemExit 1), print (error_starting e) w')
            | (Raises x, w') \<Rightarrow> (Raises x, w')))"

text \<open>
  The exit status of the process that runs \<open>main()\<close> as its last statement: 0
  when \<open>main\<close> returns; the low eight bits of the integer that a
  \<open>SystemExit\<close> carries (\<open>sys.exit(256)\<close> ends with status 0); 130 for a
  \<open>KeyboardInterrupt\<close> that reaches the top level (the process ends by the
  interrupt signal); 1 for an \<open>Exception\<close> that does.
\<close>

fun exit_code :: "unit outcome \<Rightarrow> int" where
  "exit_code (Returns u) = 0"
| "exit_code (Raises (SystemExit n)) = n mod 256"
| "exit_code (Raises KeyboardInterrupt) = 130"
| "exit_code (Raises (Exception e)) = 1"

subsection \<open>A sample installation\<close>

text \<open>
  A project directory \<open>srv\<close> with the script, the four required files and
  nothing else; the concrete instances of the theorems below are evaluated on it.
\<close>

definition example_files :: filesystem where
  "example_files = map_of
     [([''srv'', ''pages'', ''index.html''], File ''<h1>home</h1>''),
      ([''srv'', ''pages'', ''dashboard.html''], File ''<h1>dash</h1>''),
      ([''srv'', ''js'', ''data-manager.js''], File ''let d = 1''),
      ([''srv'', ''data'', ''locations.json''], File ''[]''),
      ([''srv'', ''app.py''], File ''import os'')]"

definition example_script :: path where
  "example_script = [''srv'', ''app.py'']"

definition example_world :: world where
  "example_world = \<lparr>files = example_files, trace = []\<rparr>"

text \<open>
  An installation where two of the four required files are missing.
  \<open>quiet_env\<close> is the environment in which no library call raises.
\<close>

definition example_partial :: filesystem where
  "example_partial = map_of
     [([''srv'', ''pages'', ''index.html''], File ''<h1>home</h1>''),
      ([''srv'', ''js'', ''data-manager.js''], File ''let d = 1'')]"

definition quiet_env :: env where
  "quiet_env = \<lparr>thread_start = None, app_run = None\<rparr>"

text \<open>
  The environment in which \<open>app.run\<close> raises \<open>SystemExit(1)\<close>, as the server
  library does when the port is in use.
\<close>

definition busy_port_env :: env where
  "busy_port_env = \<lparr>thread_start = None, app_run = Some (SystemExit 1)\<rparr>"

text \<open>
  Two disks with symbolic links. On \<open>dangling_disk\<close> the first required path is a
  link whose target does not exist, and the other three are regular files. On
  \<open>linked_disk\<close> it is a link to a regular file, and the other three are
  directories.
\<close>

definition dangling_disk :: disk where
  "dangling_disk = map_of
     [([''srv'', ''pages'', ''index.html''], Symlink [''srv'', ''gone.html'']),
      ([''srv'', ''pages'', ''dashboard.html''], Regular ''<h1>dash</h1>''),
      ([''srv'', ''js'', ''data-manager.js''], Regular ''let d = 1''),
      ([''srv'', ''data'', ''locations.json''], Regular ''[]'')]"

definition dangling_world :: world where
  "dangling_world = \<lparr>files = stat_view dangling_disk, trace = []\<rparr>"

definition linked_disk :: disk where
  "linked_disk = map_of
     [([''srv'', ''pages'', ''index.html''], Symlink [''srv'', ''home.html'']),
      ([''srv'', ''home.html''], Regular ''<h1>home</h1>''),
      ([''srv'', ''pages'', ''dashboard.html''], Folder),
      ([''srv'', ''js'', ''data-manager.js''], Folder),
      ([''srv'', ''data'', ''locations.json''], Folder)]"

definition linked_world :: world where
  "linked_world = \<lparr>files = stat_view linked_disk, trace = []\<rparr>"

definition partial_world :: world where
  "partial_world = \<lparr>files = example_partial, trace = []\<rparr>"

text \<open>What a start-up that passes validation emits up to the call of \<open>app.run\<close>.\<close>

definition startup_events :: "event list" where
  "startup_events =
     map Print banner @
     [ThreadStart True, Print ''Starting server on http://localhost:5000...'',
      AppRun ''localhost'' 5000 False]"

section \<open>Properties\<close>

subsection \<open>Traces and the required-file loop\<close>

lemma trace_emit: "trace (emit e w) = trace w @ [e]"
  by (simp add: emit_def)

lemma files_emit: "files (emit e w) = files w"
  by (simp add: emit_def)

lemma trace_print: "trace (print s w) = trace w @ [Print s]"
  by (simp add: print_def trace_emit)

lemma files_print: "files (print s w) = files w"
  by (simp add: print_def files_emit)

lemma trace_prints: "trace (prints ss w) = trace w @ map Print ss"
  by (induction ss arbitrary: w) (simp_all add: trace_print)

lemma files_prints: "files (prints ss w) = files w"
  by (induction ss arbitrary: w) (simp_all add: files_print)

lemma check_required_filter:
  "check_required fs proot ps acc =
     acc @ filter (\<lambda>p. \<not> exists fs (joinpath proot p)) ps"
  by (induction ps arbitrary: acc) simp_all

lemma check_required_empty:
  "(check_required fs proot ps [] = []) = (\<forall>p \<in> set ps. exists fs (joinpath proot p))"
  by (simp add: check_required_filter filter_empty_conv)

subsection \<open>The router\<close>

text \<open>
  C2. For every non-empty location \<open>X\<close> that a \<open>path\<close> parameter accepts (one
  segment or several), the response to GET \<open>/dashboard/X\<close> is the response to GET
  \<open>/dashboard\<close>: the view ignores its parameter.
\<close>

theorem dashboard_location_ignored:
  "path_converter X \<Longrightarrow>
     handle_get fs script_file (''/dashboard/'' @ X) = handle_get fs script_file ''/dashboard''"
  by (simp add: handle_get_def create_app_def dashboard_with_location_def dashboard_def)

theorem dashboard_location_ignored_witness:
  "path_converter ''room/1'' \<and>
   handle_get example_files example_script ''/dashboard/room/1''
     = handle_get example_files example_script ''/dashboard''"
  using dashboard_location_ignored [of "''room/1''" example_files example_script]
  by (simp add: path_converter_def)

subsection \<open>The browser task\<close>

text \<open>
  C9. The fallback instruction is printed only when \<open>webbrowser.open\<close> raises.
  Whenever it returns, with True or with False (no browser could be opened), the
  task prints the success message and nothing else.
\<close>

theorem open_browser_fallback_only_on_raise:
  "(Print ''Please open http://localhost:5000 in your browser''
      \<in> set (emitted w (snd (open_browser opened w)))
      \<longrightarrow> (\<exists>e. opened = Raises (Exception e)))
   \<and> open_browser (Returns b) w = (Returns (), w\<lparr>trace := trace w @
          [Sleep 1.5, WebbrowserOpen ''http://localhost:5000'',
           Print ''Browser opened successfully!'']\<rparr>)"
  by (cases opened; (cases "case opened of Raises x \<Rightarrow> x")?)
     (auto simp: open_browser_def Let_def emitted_def emit_def print_def split: exn.splits)

theorem open_browser_fallback_only_on_raise_witness:
  "Print ''Please open http://localhost:5000 in your browser''
      \<in> set (emitted example_world
                 (snd (open_browser (Raises (Exception ''no display'')) example_world)))
   \<and> open_browser (Returns False) example_world
       = (Returns (), example_world\<lparr>trace :=
            [Sleep 1.5, WebbrowserOpen ''http://localhost:5000'',
             Print ''Browser opened successfully!'']\<rparr>)"
  using open_browser_fallback_only_on_raise
          [of example_world "Raises (Exception ''no display'')" False]
  by (simp add: open_browser_def Let_def emitted_def emit_def print_def example_world_def)

subsection \<open>main: the two paths through start-up\<close>

lemma emitted_prints: "emitted w (prints ss w) = map Print ss"
  by (simp add: emitted_def trace_prints)

lemma main_missing:
  assumes "check_required (files w) (project_root sf) required_files [] \<noteq> []"
  shows "fst (main ev sf w) = Raises (SystemExit 1)"
    and "emitted w (snd (main ev sf w)) =
      Print ''Error: Missing required files!''
        # map (\<lambda>file. Print (''  - '' @ file))
            (filter (\<lambda>p. \<not> exists (files w) (joinpath (project_root sf) p)) required_files)"
    and "files (snd (main ev sf w)) = files w"
  using assms
  by (simp_all add: main_def Let_def check_required_filter emitted_prints files_prints comp_def
        del: prints.simps)

lemma try_body_cases:
  "thread_start ev = Some x \<Longrightarrow> try_body ev w = (Raises x, w)"
  "thread_start ev = None \<Longrightarrow> app_run ev = Some x \<Longrightarrow>
     try_body ev w = (Raises x, w\<lparr>trace := trace w @
       [ThreadStart True, Print ''Starting server on http://localhost:5000...'',
        AppRun ''localhost'' 5000 False]\<rparr>)"
  "thread_start ev = None \<Longrightarrow> app_run ev = None \<Longrightarrow>
     try_body ev w = (Returns (), w\<lparr>trace := trace w @
       [ThreadStart True, Print ''Starting server on http://localhost:5000...'',
        AppRun ''localhost'' 5000 False]\<rparr>)"
  by (simp_all add: try_body_def Let_def emit_def print_def)

lemma main_present:
  assumes "check_required (files w) (project_root sf) required_files [] = []"
  shows "main ev sf w =
     (case try_body ev (prints banner w) of
              (Returns u, w') \<Rightarrow> (Returns (), w')
            | (Raises KeyboardInterrupt, w') \<Rightarrow> (Returns (), prints farewell w')
            | (Raises (Exception e), w') \<Rightarrow>
                (Raises (SystemExit 1), print (error_starting e) w')
            | (Raises x, w') \<Rightarrow> (Raises x, w'))"
  using assms by (simp add: main_def Let_def)

lemma main_served:
  assumes "check_required (files w) (project_root sf) required_files [] = []"
      and "thread_start ev = None"
  shows "app_run ev = None \<Longrightarrow> fst (main ev sf w) = Returns ()"
    and "app_run ev = None \<Longrightarrow> emitted w (snd (main ev sf w)) = startup_events"
    and "app_run ev = Some KeyboardInterrupt \<Longrightarrow> fst (main ev sf w) = Returns ()"
    and "app_run ev = Some KeyboardInterrupt \<Longrightarrow>
           emitted w (snd (main ev sf w)) = startup_events @ map Print farewell"
    and "app_run ev = Some (Exception e) \<Longrightarrow> fst (main ev sf w) = Raises (SystemExit 1)"
    and "app_run ev = Some (Exception e) \<Longrightarrow>
           emitted w (snd (main ev sf w)) = startup_events @ [Print (error_starting e)]"
    and "app_run ev = Some (SystemExit n) \<Longrightarrow> fst (main ev sf w) = Raises (SystemExit n)"
    and "app_run ev = Some (SystemExit n) \<Longrightarrow>
           emitted w (snd (main ev sf w)) = startup_events"
  using assms(2)
  by (simp_all add: main_present [OF assms(1)] try_body_cases emitted_def trace_prints
        trace_print startup_events_def)

lemma main_files: "files (snd (main ev sf w)) = files w"
  by (simp add: main_def Let_def try_body_def files_prints files_print files_emit
        split: option.splits exn.splits)

lemma required_paths:
  "map (joinpath p) required_files =
     [p @ [''pages'', ''index.html''], p @ [''pages'', ''dashboard.html''],
      p @ [''js'', ''data-manager.js''], p @ [''data'', ''locations.json'']]"
  by (simp add: required_files_def joinpath_def parts_def)

lemma all_required:
  "(\<forall>p \<in> set required_files. exists fs (joinpath r p)) =
     (fs (r @ [''pages'', ''index.html'']) \<noteq> None
      \<and> fs (r @ [''pages'', ''dashboard.html'']) \<noteq> None
      \<and> fs (r @ [''js'', ''data-manager.js'']) \<noteq> None
      \<and> fs (r @ [''data'', ''locations.json'']) \<noteq> None)"
proof -
  have "(\<forall>p \<in> set required_files. exists fs (joinpath r p))
        = (\<forall>q \<in> set (map (joinpath r) required_files). exists fs q)"
    by simp
  then show ?thesis
    unfolding required_paths by (simp add: exists_def)
qed

lemma example_validated:
  "\<forall>p \<in> set required_files. exists example_files (joinpath (project_root example_script) p)"
  unfolding all_required
  by (simp add: example_files_def example_script_def project_root_def parent_def)

lemma example_partial_missing:
  "\<exists>p \<in> set required_files. \<not> exists example_partial (joinpath (project_root example_script) p)"
proof -
  have "\<not> (\<forall>p \<in> set required_files. exists example_partial (joinpath (project_root example_script) p))"
    unfolding all_required
    by (simp add: example_partial_def example_script_def project_root_def parent_def)
  then show ?thesis by blast
qed

text \<open>
  C4. If any of the four required files is absent relative to the project root, then
  every missing path is printed, \<open>main\<close> ends in \<open>sys.exit(1)\<close> (exit code 1),
  and nothing but printing happens: no thread is started and \<open>app.run\<close> is never
  called, so no port is bound.
\<close>

theorem missing_files_exit:
  assumes "\<exists>p \<in> set required_files. \<not> exists (files w) (joinpath (project_root sf) p)"
  shows "fst (main ev sf w) = Raises (SystemExit 1)
     \<and> exit_code (fst (main ev sf w)) = 1
     \<and> (\<forall>p \<in> set required_files.
           \<not> exists (files w) (joinpath (project_root sf) p)
           \<longrightarrow> Print (''  - '' @ p) \<in> set (emitted w (snd (main ev sf w))))
     \<and> (\<forall>e \<in> set (emitted w (snd (main ev sf w))). \<exists>s. e = Print s)"
proof -
  from assms have m: "check_required (files w) (project_root sf) required_files [] \<noteq> []"
    by (simp add: check_required_empty)
  show ?thesis
    by (auto simp: main_missing [OF m])
qed

theorem missing_files_exit_witness:
  "\<not> exists (files partial_world)
       (joinpath (project_root example_script) ''pages/dashboard.html'')
   \<and> exit_code (fst (main quiet_env example_script partial_world)) = 1
   \<and> Print ''  - pages/dashboard.html''
        \<in> set (emitted partial_world (snd (main quiet_env example_script partial_world)))
   \<and> Print ''  - data/locations.json''
        \<in> set (emitted partial_world (snd (main quiet_env example_script partial_world)))"
proof -
  have h: "\<exists>p \<in> set required_files.
      \<not> exists (files partial_world) (joinpath (project_root example_script) p)"
    using example_partial_missing by (simp add: partial_world_def)
  have d: "\<not> exists (files partial_world)
              (joinpath (project_root example_script) ''pages/dashboard.html'')"
    by (simp add: partial_world_def example_partial_def example_script_def project_root_def
          parent_def joinpath_def parts_def exists_def)
  have l: "\<not> exists (files partial_world)
              (joinpath (project_root example_script) ''data/locations.json'')"
    by (simp add: partial_world_def example_partial_def example_script_def project_root_def
          parent_def joinpath_def parts_def exists_def)
  have m: "''pages/dashboard.html'' \<in> set required_files"
          "''data/locations.json'' \<in> set required_files"
    by (simp_all add: required_files_def)
  note T = missing_files_exit [OF h, of quiet_env]
  from T have B: "exit_code (fst (main quiet_env example_script partial_world)) = 1"
    by (elim conjE)
  from T have C: "\<forall>p \<in> set required_files.
           \<not> exists (files partial_world) (joinpath (project_root example_script) p)
           \<longrightarrow> Print (''  - '' @ p)
                 \<in> set (emitted partial_world (snd (main quiet_env example_script partial_world)))"
    by (elim conjE)
  have P1: "Print ''  - pages/dashboard.html''
        \<in> set (emitted partial_world (snd (main quiet_env example_script partial_world)))"
    using C [rule_format, OF m(1) d] by simp
  have P2: "Print ''  - data/locations.json''
        \<in> set (emitted partial_world (snd (main quiet_env example_script partial_world)))"
    using C [rule_format, OF m(2) l] by simp
  from d B P1 P2 show ?thesis by (intro conjI)
qed

text \<open>
  C8. Start-up runs in the specified order. The project root is the directory that
  holds the script. When each required path exists below that root (and the thread
  can be started), the events are, in this order: the status text, the start of the
  daemon browser thread, the line announcing the server, and the blocking call
  \<open>app.run(host='localhost', port=5000, debug=False)\<close>; only printing follows.
  When validation fails none of these happen: every event is a print of a line that
  is neither a line of the status text nor the server announcement.
\<close>

theorem startup_order:
  "project_root sf = butlast sf
   \<and> ((\<forall>p \<in> set required_files. exists (files w) (joinpath (project_root sf) p))
        \<longrightarrow> thread_start ev = None
        \<longrightarrow> (\<exists>rest. emitted w (snd (main ev sf w)) =
               map Print banner
               @ [ThreadStart True, Print ''Starting server on http://localhost:5000...'',
                  AppRun ''localhost'' 5000 False]
               @ map Print rest))
   \<and> (\<not> (\<forall>p \<in> set required_files. exists (files w) (joinpath (project_root sf) p))
        \<longrightarrow> (\<forall>e \<in> set (emitted w (snd (main ev sf w))).
               \<exists>s. e = Print s \<and> s \<notin> set banner
                     \<and> s \<noteq> ''Starting server on http://localhost:5000...''))"
proof (intro conjI impI)
  show "project_root sf = butlast sf"
    by (simp add: project_root_def parent_def)
next
  assume v: "\<forall>p \<in> set required_files. exists (files w) (joinpath (project_root sf) p)"
     and t: "thread_start ev = None"
  from v have c: "check_required (files w) (project_root sf) required_files [] = []"
    by (simp add: check_required_empty)
  let ?es = "emitted w (snd (main ev sf w))"
  show "\<exists>rest. ?es = map Print banner
               @ [ThreadStart True, Print ''Starting server on http://localhost:5000...'',
                  AppRun ''localhost'' 5000 False]
               @ map Print rest"
  proof (cases "app_run ev")
    case None
    then have "?es = startup_events" by (rule main_served(2) [OF c t])
    then have "?es = map Print banner
               @ [ThreadStart True, Print ''Starting server on http://localhost:5000...'',
                  AppRun ''localhost'' 5000 False] @ map Print []"
      by (simp add: startup_events_def)
    then show ?thesis by blast
  next
    case (Some x)
    show ?thesis
    proof (cases x)
      case KeyboardInterrupt
      with Some have "?es = startup_events @ map Print farewell"
        by (simp add: main_served(4) [OF c t])
      then show ?thesis unfolding startup_events_def by (metis append.assoc)
    next
      case (SystemExit n)
      with Some have "?es = startup_events" by (simp add: main_served(8) [OF c t])
      then have "?es = map Print banner
               @ [ThreadStart True, Print ''Starting server on http://localhost:5000...'',
                  AppRun ''localhost'' 5000 False] @ map Print []"
        by (simp add: startup_events_def)
      then show ?thesis by blast
    next
      case (Exception e)
      with Some have "?es = startup_events @ map Print [error_starting e]"
        by (simp add: main_served(6) [OF c t])
      then show ?thesis unfolding startup_events_def by (metis append.assoc)
    qed
  qed
next
  assume "\<not> (\<forall>p \<in> set required_files. exists (files w) (joinpath (project_root sf) p))"
  then have c: "check_required (files w) (project_root sf) required_files [] \<noteq> []"
    by (simp add: check_required_empty)
  show "\<forall>e \<in> set (emitted w (snd (main ev sf w))).
               \<exists>s. e = Print s \<and> s \<notin> set banner
                     \<and> s \<noteq> ''Starting server on http://localhost:5000...''"
    unfolding main_missing(2) [OF c]
    by (auto simp: banner_def)
qed

theorem startup_order_witness:
  "exists (files example_world)
     (joinpath (project_root example_script) ''pages/index.html'')
   \<and> thread_start quiet_env = None
   \<and> take (length banner + 3)
        (emitted example_world (snd (main quiet_env example_script example_world)))
      = map Print banner
        @ [ThreadStart True, Print ''Starting server on http://localhost:5000...'',
           AppRun ''localhost'' 5000 False]"
proof -
  have v: "\<forall>p \<in> set required_files.
      exists (files example_world) (joinpath (project_root example_script) p)"
    using example_validated by (simp add: example_world_def)
  have i: "''pages/index.html'' \<in> set required_files"
    by (simp add: required_files_def)
  have t: "thread_start quiet_env = None"
    by (simp add: quiet_env_def)
  note T = startup_order [of example_script example_world quiet_env]
  from T have E: "(\<forall>p \<in> set required_files.
        exists (files example_world) (joinpath (project_root example_script) p))
        \<longrightarrow> thread_start quiet_env = None
        \<longrightarrow> (\<exists>rest. emitted example_world (snd (main quiet_env example_script example_world)) =
               map Print banner
               @ [ThreadStart True, Print ''Starting server on http://localhost:5000...'',
                  AppRun ''localhost'' 5000 False]
               @ map Print rest)"
    by (elim conjE)
  from mp [OF mp [OF E v] t] obtain rest where
    r: "emitted example_world (snd (main quiet_env example_script example_world)) =
          map Print banner
          @ [ThreadStart True, Print ''Starting server on http://localhost:5000...'',
             AppRun ''localhost'' 5000 False]
          @ map Print rest" ..
  have k: "take (length banner + 3)
        (emitted example_world (snd (main quiet_env example_script example_world)))
      = map Print banner
        @ [ThreadStart True, Print ''Starting server on http://localhost:5000...'',
           AppRun ''localhost'' 5000 False]"
    unfolding r by simp
  from bspec [OF v i] t k show ?thesis by (intro conjI)
qed

lemma app_run_iff_present:
  "(AppRun ''localhost'' 5000 False \<in> set (emitted w (snd (main ev script_file w))))
     = (thread_start ev = None
        \<and> files w (project_root script_file @ [''pages'', ''index.html'']) \<noteq> None
        \<and> files w (project_root script_file @ [''pages'', ''dashboard.html'']) \<noteq> None
        \<and> files w (project_root script_file @ [''js'', ''data-manager.js'']) \<noteq> None
        \<and> files w (project_root script_file @ [''data'', ''locations.json'']) \<noteq> None)"
proof (cases "\<forall>p \<in> set required_files. exists (files w) (joinpath (project_root script_file) p)")
  case True
  then have c: "check_required (files w) (project_root script_file) required_files [] = []"
    by (simp add: check_required_empty)
  have "(AppRun ''localhost'' 5000 False \<in> set (emitted w (snd (main ev script_file w))))
          = (thread_start ev = None)"
    by (auto simp add: main_present [OF c] try_body_def Let_def emitted_def trace_prints
          trace_print trace_emit split: option.splits exn.splits)
  with True show ?thesis
    by (simp add: all_required)
next
  case False
  then have c: "check_required (files w) (project_root script_file) required_files [] \<noteq> []"
    by (simp add: check_required_empty)
  have "AppRun ''localhost'' 5000 False \<notin> set (emitted w (snd (main ev script_file w)))"
    unfolding main_missing(2) [OF c] by auto
  with False show ?thesis
    unfolding all_required by auto
qed

lemma stat_pos:
  "0 < n \<Longrightarrow> stat n d p =
     (case d p of
        None \<Rightarrow> None
      | Some (Regular content) \<Rightarrow> Some (File content)
      | Some Folder \<Rightarrow> Some Directory
      | Some (Symlink target) \<Rightarrow> stat (n - 1) d target)"
  by (cases n) (simp_all split: option.splits node.splits)

lemma stat_view_node:
  "d p = None \<Longrightarrow> stat_view d p = None"
  "d p = Some (Regular content) \<Longrightarrow> stat_view d p = Some (File content)"
  "d p = Some Folder \<Longrightarrow> stat_view d p = Some Directory"
  "d p = Some (Symlink target) \<Longrightarrow> stat_view d p = stat max_links d target"
  by (simp_all add: stat_view_def)

text \<open>
  C10, the kind of entry the claim leaves out. On \<open>dangling_disk\<close> each of the
  four required paths has an entry, and the one at \<open>pages/index.html\<close> is a
  symbolic link whose target does not exist. The check reports that path as missing:
  \<open>main\<close> prints the error and ends in \<open>sys.exit(1)\<close>, and \<open>app.run\<close>
  is not called.
\<close>

theorem dangling_link_fails_check:
  "dangling_disk [''srv'', ''pages'', ''index.html''] = Some (Symlink [''srv'', ''gone.html''])
   \<and> dangling_disk [''srv'', ''pages'', ''dashboard.html''] = Some (Regular ''<h1>dash</h1>'')
   \<and> dangling_disk [''srv'', ''js'', ''data-manager.js''] = Some (Regular ''let d = 1'')
   \<and> dangling_disk [''srv'', ''data'', ''locations.json''] = Some (Regular ''[]'')
   \<and> fst (main quiet_env example_script dangling_world) = Raises (SystemExit 1)
   \<and> emitted dangling_world (snd (main quiet_env example_script dangling_world))
       = [Print ''Error: Missing required files!'', Print ''  - pages/index.html'']"
proof -
  have n: "dangling_disk [''srv'', ''pages'', ''index.html''] = Some (Symlink [''srv'', ''gone.html''])"
          "dangling_disk [''srv'', ''pages'', ''dashboard.html''] = Some (Regular ''<h1>dash</h1>'')"
          "dangling_disk [''srv'', ''js'', ''data-manager.js''] = Some (Regular ''let d = 1'')"
          "dangling_disk [''srv'', ''data'', ''locations.json''] = Some (Regular ''[]'')"
          "dangling_disk [''srv'', ''gone.html''] = None"
    by (simp_all add: dangling_disk_def)
  have s: "stat_view dangling_disk [''srv'', ''pages'', ''index.html''] = None"
          "stat_view dangling_disk [''srv'', ''pages'', ''dashboard.html''] \<noteq> None"
          "stat_view dangling_disk [''srv'', ''js'', ''data-manager.js''] \<noteq> None"
          "stat_view dangling_disk [''srv'', ''data'', ''locations.json''] \<noteq> None"
    by (simp_all add: stat_view_node n stat_pos max_links_def)
  have m: "filter (\<lambda>p. \<not> exists (files dangling_world) (joinpath (project_root example_script) p))
             required_files = [''pages/index.html'']"
    by (simp add: required_files_def exists_def joinpath_def parts_def project_root_def
          parent_def example_script_def dangling_world_def s)
  then have c: "check_required (files dangling_world) (project_root example_script)
                  required_files [] \<noteq> []"
    by (simp add: check_required_filter)
  have f: "fst (main quiet_env example_script dangling_world) = Raises (SystemExit 1)"
    by (rule main_missing(1) [OF c])
  have e: "emitted dangling_world (snd (main quiet_env example_script dangling_world))
       = [Print ''Error: Missing required files!'', Print ''  - pages/index.html'']"
    unfolding main_missing(2) [OF c] m by simp
  from n(1) n(2) n(3) n(4) f e show ?thesis by (intro conjI)
qed

text \<open>
  C10. The required-file check tests that each path leads somewhere, not what is
  there. \<open>app.run\<close> is called if and only if the browser thread could be started
  and \<open>os.stat\<close> finds a file or a directory at each of the four paths; and
  \<open>main\<close> leaves the file system as it found it. On a disk, a path with a
  regular file passes the check, a path with a directory passes it, a path with a
  symbolic link passes it when the target is a regular file or a directory, and a
  path with a symbolic link whose target does not exist fails it.
\<close>

theorem existence_only_check:
  "(AppRun ''localhost'' 5000 False \<in> set (emitted w (snd (main ev script_file w))))
     = (thread_start ev = None
        \<and> files w (project_root script_file @ [''pages'', ''index.html'']) \<noteq> None
        \<and> files w (project_root script_file @ [''pages'', ''dashboard.html'']) \<noteq> None
        \<and> files w (project_root script_file @ [''js'', ''data-manager.js'']) \<noteq> None
        \<and> files w (project_root script_file @ [''data'', ''locations.json'']) \<noteq> None)
   \<and> files (snd (main ev script_file w)) = files w
   \<and> (d p = Some (Regular content) \<longrightarrow> exists (stat_view d) p)
   \<and> (d p = Some Folder \<longrightarrow> exists (stat_view d) p)
   \<and> (d p = Some (Symlink target) \<longrightarrow>
        (d target = Some (Regular content) \<or> d target = Some Folder)
        \<longrightarrow> exists (stat_view d) p)
   \<and> (d p = Some (Symlink target) \<longrightarrow> d target = None \<longrightarrow> \<not> exists (stat_view d) p)"
proof (intro conjI impI)
  show "(AppRun ''localhost'' 5000 False \<in> set (emitted w (snd (main ev script_file w))))
     = (thread_start ev = None
        \<and> files w (project_root script_file @ [''pages'', ''index.html'']) \<noteq> None
        \<and> files w (project_root script_file @ [''pages'', ''dashboard.html'']) \<noteq> None
        \<and> files w (project_root script_file @ [''js'', ''data-manager.js'']) \<noteq> None
        \<and> files w (project_root script_file @ [''data'', ''locations.json'']) \<noteq> None)"
    by (rule app_run_iff_present)
  show "files (snd (main ev script_file w)) = files w"
    by (rule main_files)
next
  assume "d p = Some (Regular content)"
  then show "exists (stat_view d) p"
    by (simp add: exists_def stat_view_node)
next
  assume "d p = Some Folder"
  then show "exists (stat_view d) p"
    by (simp add: exists_def stat_view_node)
next
  assume "d p = Some (Symlink target)"
     and "d target = Some (Regular content) \<or> d target = Some Folder"
  then show "exists (stat_view d) p"
    by (auto simp add: exists_def stat_view_node stat_pos max_links_def)
next
  assume "d p = Some (Symlink target)" and "d target = None"
  then show "\<not> exists (stat_view d) p"
    by (simp add: exists_def stat_view_node stat_pos max_links_def)
qed

theorem existence_only_check_witness:
  "AppRun ''localhost'' 5000 False
     \<in> set (emitted linked_world (snd (main quiet_env example_script linked_world)))
   \<and> linked_disk [''srv'', ''pages'', ''index.html''] = Some (Symlink [''srv'', ''home.html''])
   \<and> linked_disk [''srv'', ''pages'', ''dashboard.html''] = Some Folder
   \<and> exists (stat_view linked_disk) [''srv'', ''pages'', ''dashboard.html'']
   \<and> files (snd (main quiet_env example_script linked_world)) = files linked_world"
proof -
  have n: "linked_disk [''srv'', ''pages'', ''index.html''] = Some (Symlink [''srv'', ''home.html''])"
          "linked_disk [''srv'', ''home.html''] = Some (Regular ''<h1>home</h1>'')"
          "linked_disk [''srv'', ''pages'', ''dashboard.html''] = Some Folder"
          "linked_disk [''srv'', ''js'', ''data-manager.js''] = Some Folder"
          "linked_disk [''srv'', ''data'', ''locations.json''] = Some Folder"
    by (simp_all add: linked_disk_def)
  have d: "thread_start quiet_env = None
        \<and> files linked_world (project_root example_script @ [''pages'', ''index.html'']) \<noteq> None
        \<and> files linked_world (project_root example_script @ [''pages'', ''dashboard.html'']) \<noteq> None
        \<and> files linked_world (project_root example_script @ [''js'', ''data-manager.js'']) \<noteq> None
        \<and> files linked_world (project_root example_script @ [''data'', ''locations.json'']) \<noteq> None"
    by (simp add: linked_world_def quiet_env_def example_script_def project_root_def parent_def
          stat_view_node n stat_pos max_links_def)
  note T = existence_only_check [of linked_world quiet_env example_script linked_disk
             "[''srv'', ''pages'', ''dashboard.html'']"]
  note A = conjunct1 [OF T]
  note B = conjunct1 [OF conjunct2 [OF T]]
  note C = conjunct1 [OF conjunct2 [OF conjunct2 [OF conjunct2 [OF T]]]]
  from iffD2 [OF A d] n(1) n(3) mp [OF C n(3)] B show ?thesis by (intro conjI)
qed

subsection \<open>The browser task when no browser can be opened\<close>

text \<open>
  C7. The task sleeps 1.5 seconds and calls \<open>webbrowser.open\<close> once with
  \<open>http://localhost:5000\<close>. The claim says that a failure to open the browser
  yields the fallback instruction. \<open>webbrowser.open\<close> reports that no browser
  could be opened by returning False; on that input the task prints the success
  message, and the fallback instruction is not printed.
\<close>

theorem open_browser_false_reports_success:
  "open_browser (Returns False) w
     = (Returns (), w\<lparr>trace := trace w @
          [Sleep 1.5, WebbrowserOpen ''http://localhost:5000'',
           Print ''Browser opened successfully!'']\<rparr>)
   \<and> Print ''Please open http://localhost:5000 in your browser''
        \<notin> set (emitted w (snd (open_browser (Returns False) w)))"
  by (simp add: open_browser_def Let_def emitted_def emit_def print_def)

subsection \<open>main: the interrupt and the exit status\<close>

text \<open>
  C5. The claim says that on an interrupt signal while serving a farewell message
  is printed and the process exits with status 0. The interrupt that arrives while
  the server serves is caught inside \<open>app.run\<close>, which returns; the
  \<open>except KeyboardInterrupt\<close> branch of \<open>main\<close> is not reached. On the
  sample installation \<open>main\<close> returns, the exit status is 0, and what was printed
  ends with the server announcement: no line of the farewell is printed.
\<close>

theorem interrupt_while_serving_no_farewell:
  "app_run (serving_env (Some KeyboardInterrupt)) = None
   \<and> fst (main (serving_env (Some KeyboardInterrupt)) example_script example_world) = Returns ()
   \<and> exit_code (fst (main (serving_env (Some KeyboardInterrupt)) example_script example_world)) = 0
   \<and> emitted example_world
        (snd (main (serving_env (Some KeyboardInterrupt)) example_script example_world))
       = map Print banner
         @ [ThreadStart True, Print ''Starting server on http://localhost:5000...'',
            AppRun ''localhost'' 5000 False]
   \<and> set (map Print farewell)
        \<inter> set (emitted example_world
                 (snd (main (serving_env (Some KeyboardInterrupt)) example_script example_world)))
       = {}"
proof -
  let ?ev = "serving_env (Some KeyboardInterrupt)"
  have c: "check_required (files example_world) (project_root example_script) required_files [] = []"
    using example_validated by (simp add: check_required_empty example_world_def)
  have t: "thread_start ?ev = None" and a: "app_run ?ev = None"
    by (simp_all add: serving_env_def serve_forever_def)
  have f: "fst (main ?ev example_script example_world) = Returns ()"
    by (rule main_served(1) [OF c t a])
  have x: "exit_code (fst (main ?ev example_script example_world)) = 0"
    unfolding f by simp
  have e: "emitted example_world (snd (main ?ev example_script example_world))
       = map Print banner
         @ [ThreadStart True, Print ''Starting server on http://localhost:5000...'',
            AppRun ''localhost'' 5000 False]"
    using main_served(2) [OF c t a] by (simp add: startup_events_def)
  have n: "set (map Print farewell)
        \<inter> set (emitted example_world (snd (main ?ev example_script example_world))) = {}"
    unfolding e by (simp add: banner_def farewell_def)
  from a f x e n show ?thesis by (intro conjI)
qed

text \<open>
  A second handler that is not reached: \<open>except Exception\<close> does not catch a
  \<open>SystemExit\<close>. When \<open>app.run\<close> raises \<open>SystemExit(1)\<close> in the sample
  installation, \<open>main\<close> prints nothing after the server announcement and the
  \<open>SystemExit\<close> leaves \<open>main\<close>.
\<close>

theorem system_exit_not_reported:
  "fst (main busy_port_env example_script example_world) = Raises (SystemExit 1)
   \<and> emitted example_world (snd (main busy_port_env example_script example_world))
       = map Print banner
         @ [ThreadStart True, Print ''Starting server on http://localhost:5000...'',
            AppRun ''localhost'' 5000 False]"
proof -
  have c: "check_required (files example_world) (project_root example_script) required_files [] = []"
    using example_validated by (simp add: check_required_empty example_world_def)
  have t: "thread_start busy_port_env = None" and a: "app_run busy_port_env = Some (SystemExit 1)"
    by (simp_all add: busy_port_env_def)
  from main_served(7) [OF c t a] main_served(8) [OF c t a] show ?thesis
    by (simp add: startup_events_def)
qed

subsection \<open>The route table and the file-serving primitive\<close>

lemma handle_get_routes:
  "handle_get fs sf ''/'' = Some (index fs sf)"
  "handle_get fs sf ''/dashboard'' = Some (dashboard fs sf)"
  "path_converter X \<Longrightarrow>
     handle_get fs sf (''/dashboard/'' @ X) = Some (dashboard_with_location fs sf X)"
  "path_converter X \<Longrightarrow> handle_get fs sf (''/js/'' @ X) = Some (js_files fs sf X)"
  "path_converter X \<Longrightarrow> handle_get fs sf (''/data/'' @ X) = Some (data_files fs sf X)"
  by (simp_all add: handle_get_def create_app_def)

lemma send_from_directory_served:
  "(send_from_directory fs d fn = Inr c)
     = (\<exists>p. safe_join d fn = Some p \<and> fs p = Some (File c))"
  by (auto simp add: send_from_directory_def split: option.splits entry.splits)

lemma safe_join_fixed:
  "safe_join d ''index.html'' = Some (d @ [''index.html''])"
  "safe_join d ''dashboard.html'' = Some (d @ [''dashboard.html''])"
  by (simp_all add: safe_join_def Let_def)

lemma joinpath_dirs:
  "joinpath p ''pages'' = p @ [''pages'']"
  "joinpath p ''js'' = p @ [''js'']"
  "joinpath p ''data'' = p @ [''data'']"
  by (simp_all add: joinpath_def parts_def)

lemma normpath_leading:
  "acc \<noteq> [] \<Longrightarrow> hd acc = ''..'' \<Longrightarrow>
     normpath_comps False acc cs \<noteq> [] \<and> hd (normpath_comps False acc cs) = ''..''"
proof (induction cs arbitrary: acc)
  case Nil
  then show ?case by simp
next
  case (Cons c cs)
  show ?case
  proof (cases "c = [] \<or> c = ''.''")
    case True
    with Cons show ?thesis by simp
  next
    case False
    show ?thesis
    proof (cases "c \<noteq> ''..'' \<or> last acc = ''..''")
      case True
      have "normpath_comps False (acc @ [c]) cs \<noteq> []
            \<and> hd (normpath_comps False (acc @ [c]) cs) = ''..''"
        using Cons.prems by (intro Cons.IH) simp_all
      with False True Cons.prems show ?thesis by auto
    next
      case F2: False
      with Cons.prems have "butlast acc \<noteq> []"
        by (cases acc) (auto split: if_splits)
      moreover from this Cons.prems have "hd (butlast acc) = ''..''"
        by (cases acc) (auto split: if_splits)
      ultimately have "normpath_comps False (butlast acc) cs \<noteq> []
            \<and> hd (normpath_comps False (butlast acc) cs) = ''..''"
        by (rule Cons.IH)
      with False F2 Cons.prems show ?thesis by auto
    qed
  qed
qed

lemma normpath_dotdot_leads:
  "''..'' \<notin> set acc \<Longrightarrow> ''..'' \<in> set (normpath_comps False acc cs) \<Longrightarrow>
     normpath_comps False acc cs \<noteq> [] \<and> hd (normpath_comps False acc cs) = ''..''"
proof (induction cs arbitrary: acc)
  case Nil
  then show ?case by simp
next
  case (Cons c cs)
  show ?case
  proof (cases "c = [] \<or> c = ''.''")
    case True
    with Cons show ?thesis by simp
  next
    case False
    show ?thesis
    proof (cases "c = ''..''")
      case dd: True
      show ?thesis
      proof (cases "acc = []")
        case True
        with dd normpath_leading [of "[''..'']" cs] show ?thesis by simp
      next
        case ne: False
        from Cons.prems(1) ne have l: "last acc \<noteq> ''..''"
          using last_in_set by metis
        from Cons.prems(1) have b: "''..'' \<notin> set (butlast acc)"
          using in_set_butlastD by metis
        from Cons.prems(2) dd ne l
        have "''..'' \<in> set (normpath_comps False (butlast acc) cs)" by simp
        from Cons.IH [OF b this] dd ne l show ?thesis by simp
      qed
    next
      case nd: False
      from Cons.prems(1) nd have a: "''..'' \<notin> set (acc @ [c])" by simp
      from Cons.prems(2) False nd
      have "''..'' \<in> set (normpath_comps False (acc @ [c]) cs)" by simp
      from Cons.IH [OF a this] False nd show ?thesis by simp
    qed
  qed
qed

lemma resolve_normpath:
  "''..'' \<notin> set acc \<Longrightarrow> ''..'' \<notin> set (normpath_comps False acc cs) \<Longrightarrow>
     resolve (base @ acc) cs = base @ normpath_comps False acc cs"
proof (induction cs arbitrary: acc)
  case Nil
  then show ?case by simp
next
  case (Cons c cs)
  show ?case
  proof (cases "c = [] \<or> c = ''.''")
    case True
    with Cons show ?thesis by simp
  next
    case False
    show ?thesis
    proof (cases "c = ''..''")
      case dd: True
      show ?thesis
      proof (cases "acc = []")
        case True
        with dd normpath_leading [of "[''..'']" cs] Cons.prems(2)
        have "False" using hd_in_set by fastforce
        then show ?thesis ..
      next
        case ne: False
        from Cons.prems(1) ne have l: "last acc \<noteq> ''..''"
          using last_in_set by metis
        from Cons.prems(1) have b: "''..'' \<notin> set (butlast acc)"
          using in_set_butlastD by metis
        from Cons.prems(2) dd ne l
        have "''..'' \<notin> set (normpath_comps False (butlast acc) cs)" by simp
        from Cons.IH [OF b this] dd ne l show ?thesis
          by (simp add: butlast_append)
      qed
    next
      case nd: False
      from Cons.prems(1) nd have a: "''..'' \<notin> set (acc @ [c])" by simp
      from Cons.prems(2) False nd
      have "''..'' \<notin> set (normpath_comps False (acc @ [c]) cs)" by simp
      from Cons.IH [OF a this] False nd show ?thesis by simp
    qed
  qed
qed

lemma safe_join_resolve:
  assumes "safe_join d fn = Some p"
  shows "p = resolve d (split_on CHR ''/'' fn)" and "prefix d p"
proof -
  let ?n = "normpath_comps False [] (split_on CHR ''/'' fn)"
  from assms have p: "p = d @ ?n" and h: "\<not> (?n \<noteq> [] \<and> hd ?n = ''..'')"
    by (auto simp add: safe_join_def Let_def split: if_splits)
  from h normpath_dotdot_leads [of "[]" "split_on CHR ''/'' fn"]
  have "''..'' \<notin> set ?n" by auto
  from resolve_normpath [of "[]" "split_on CHR ''/'' fn" d, OF _ this] p
  show "p = resolve d (split_on CHR ''/'' fn)" by simp
  from p show "prefix d p" by simp
qed

lemma send_from_directory_inside:
  assumes "send_from_directory fs d fn = Inr c"
  shows "prefix d (resolve d (split_on CHR ''/'' fn))"
    and "fs (resolve d (split_on CHR ''/'' fn)) = Some (File c)"
proof -
  from assms obtain p where p: "safe_join d fn = Some p" and f: "fs p = Some (File c)"
    unfolding send_from_directory_served by blast
  from safe_join_resolve [OF p] f
  show "prefix d (resolve d (split_on CHR ''/'' fn))"
    and "fs (resolve d (split_on CHR ''/'' fn)) = Some (File c)"
    by simp_all
qed

lemma send_from_directory_not_found:
  "send_from_directory fs d fn \<noteq> Inl NotFound \<Longrightarrow> \<exists>c. send_from_directory fs d fn = Inr c"
  by (cases "send_from_directory fs d fn") (auto intro: http_exception.exhaust)

lemma send_fixed:
  "(send_from_directory fs d ''index.html'' = Inr c) = (fs (d @ [''index.html'']) = Some (File c))"
  "(send_from_directory fs d ''dashboard.html'' = Inr c)
     = (fs (d @ [''dashboard.html'']) = Some (File c))"
  by (simp_all add: send_from_directory_served safe_join_fixed)

lemma send_relative:
  assumes "path_converter fn"
  shows "(send_from_directory fs d fn = Inr c)
     = (\<not> climbs fn \<and> fs (resolve d (split_on CHR ''/'' fn)) = Some (File c))"
proof (cases "climbs fn")
  case True
  with assms have "safe_join d fn = None"
    by (simp add: safe_join_def climbs_def Let_def path_converter_def)
  with True show ?thesis
    by (simp add: send_from_directory_served)
next
  case False
  with assms have sj: "safe_join d fn
      = Some (d @ normpath_comps False [] (split_on CHR ''/'' fn))"
    by (simp add: safe_join_def climbs_def Let_def path_converter_def)
  from safe_join_resolve(1) [OF sj]
  have "d @ normpath_comps False [] (split_on CHR ''/'' fn) = resolve d (split_on CHR ''/'' fn)" .
  with False show ?thesis
    by (simp add: send_from_directory_served sj)
qed

lemma status_code_Inl: "status_code (Inl e) = 404"
  by (cases e) simp

lemma get_response_full:
  "(get_response fs sf url Full = Some (Reply 200 c)) = (handle_get fs sf url = Some (Inr c))"
  by (auto simp add: get_response_def split: option.splits sum.splits)

lemma get_response_full_status:
  "(map_option reply_status (get_response fs sf url Full) = Some 200)
     = (\<exists>c. handle_get fs sf url = Some (Inr c))"
  by (auto simp add: get_response_def status_code_Inl split: option.splits sum.splits)

lemma get_response_not_found:
  "handle_get fs sf url = Some (Inl NotFound) \<Longrightarrow>
     get_response fs sf url decision = Some (Abort 404)"
  by (simp add: get_response_def)

text \<open>
  C1, the file names the claim is wrong for. The request
  \<open>/js/../js/data-manager.js\<close> matches the route \<open>/js/<path:filename>\<close>, its
  file name resolves to \<open>js/data-manager.js\<close> below the directory of the script,
  and that file exists; the answer is the error 404, not the file.
\<close>

theorem climbing_name_not_served:
  "path_converter ''../js/data-manager.js''
   \<and> resolve (joinpath (project_root example_script) ''js'')
        (split_on CHR ''/'' ''../js/data-manager.js'') = [''srv'', ''js'', ''data-manager.js'']
   \<and> example_files [''srv'', ''js'', ''data-manager.js''] = Some (File ''let d = 1'')
   \<and> get_response example_files example_script ''/js/../js/data-manager.js'' Full
       = Some (Abort 404)"
proof -
  have p: "path_converter ''../js/data-manager.js''"
    by (simp add: path_converter_def)
  have r: "resolve (joinpath (project_root example_script) ''js'')
        (split_on CHR ''/'' ''../js/data-manager.js'') = [''srv'', ''js'', ''data-manager.js'']"
    by (simp add: joinpath_def parts_def example_script_def project_root_def parent_def)
  have f: "example_files [''srv'', ''js'', ''data-manager.js''] = Some (File ''let d = 1'')"
    by (simp add: example_files_def)
  have c: "climbs ''../js/data-manager.js''"
    by (simp add: climbs_def)
  have "send_from_directory example_files (joinpath (project_root example_script) ''js'')
          ''../js/data-manager.js'' \<noteq> Inr content" for content
    using send_relative [OF p] c by simp
  then have "js_files example_files example_script ''../js/data-manager.js'' = Inl NotFound"
    unfolding js_files_def using send_from_directory_not_found by blast
  with handle_get_routes(4) [OF p, of example_files example_script]
  have "handle_get example_files example_script (''/js/'' @ ''../js/data-manager.js'')
          = Some (Inl NotFound)"
    by simp
  from get_response_not_found [OF this, of Full]
  have g: "get_response example_files example_script ''/js/../js/data-manager.js'' Full
       = Some (Abort 404)"
    by simp
  from p r f g show ?thesis by (intro conjI)
qed

text \<open>
  C1. For a request without a \<open>Range\<close> or conditional header, the router answers
  with status 200 and the bytes of the file that the route table names, resolved
  below the directory of the script, exactly when that file exists: \<open>/\<close> with
  \<open>pages/index.html\<close>, \<open>/dashboard\<close> and \<open>/dashboard/<location>\<close> with
  \<open>pages/dashboard.html\<close>, and \<open>/js/<filename>\<close> and \<open>/data/<filename>\<close>
  with the file that the name resolves to from \<open>js\<close> and from \<open>data\<close>,
  provided the name does not climb (its normalised form does not begin with
  \<open>..\<close>).
\<close>

theorem route_table_serves:
  "(get_response fs sf ''/'' Full = Some (Reply 200 c))
      = (fs (project_root sf @ [''pages'', ''index.html'']) = Some (File c))
   \<and> (get_response fs sf ''/dashboard'' Full = Some (Reply 200 c))
      = (fs (project_root sf @ [''pages'', ''dashboard.html'']) = Some (File c))
   \<and> (path_converter location \<longrightarrow>
        (get_response fs sf (''/dashboard/'' @ location) Full = Some (Reply 200 c))
          = (fs (project_root sf @ [''pages'', ''dashboard.html'']) = Some (File c)))
   \<and> (path_converter filename \<longrightarrow>
        (get_response fs sf (''/js/'' @ filename) Full = Some (Reply 200 c))
          = (\<not> climbs filename
             \<and> fs (resolve (joinpath (project_root sf) ''js'') (split_on CHR ''/'' filename))
                 = Some (File c))
        \<and> (get_response fs sf (''/data/'' @ filename) Full = Some (Reply 200 c))
          = (\<not> climbs filename
             \<and> fs (resolve (joinpath (project_root sf) ''data'') (split_on CHR ''/'' filename))
                 = Some (File c)))"
proof (intro conjI impI)
  show "(get_response fs sf ''/'' Full = Some (Reply 200 c))
      = (fs (project_root sf @ [''pages'', ''index.html'']) = Some (File c))"
    unfolding get_response_full
    by (simp add: handle_get_routes index_def joinpath_dirs send_fixed)
  show "(get_response fs sf ''/dashboard'' Full = Some (Reply 200 c))
      = (fs (project_root sf @ [''pages'', ''dashboard.html'']) = Some (File c))"
    unfolding get_response_full
    by (simp add: handle_get_routes dashboard_def joinpath_dirs send_fixed)
next
  assume "path_converter location"
  then show "(get_response fs sf (''/dashboard/'' @ location) Full = Some (Reply 200 c))
          = (fs (project_root sf @ [''pages'', ''dashboard.html'']) = Some (File c))"
    unfolding get_response_full
    using handle_get_routes(3) [of location fs sf]
    by (simp add: dashboard_with_location_def joinpath_dirs send_fixed)
next
  assume p: "path_converter filename"
  show "(get_response fs sf (''/js/'' @ filename) Full = Some (Reply 200 c))
          = (\<not> climbs filename
             \<and> fs (resolve (joinpath (project_root sf) ''js'') (split_on CHR ''/'' filename))
                 = Some (File c))"
    unfolding get_response_full
    using handle_get_routes(4) [OF p, of fs sf]
    by (simp add: js_files_def send_relative [OF p])
  show "(get_response fs sf (''/data/'' @ filename) Full = Some (Reply 200 c))
          = (\<not> climbs filename
             \<and> fs (resolve (joinpath (project_root sf) ''data'') (split_on CHR ''/'' filename))
                 = Some (File c))"
    unfolding get_response_full
    using handle_get_routes(5) [OF p, of fs sf]
    by (simp add: data_files_def send_relative [OF p])
qed

theorem route_table_serves_witness:
  "path_converter ''x/../data-manager.js''
   \<and> \<not> climbs ''x/../data-manager.js''
   \<and> get_response example_files example_script ''/js/x/../data-manager.js'' Full
       = Some (Reply 200 ''let d = 1'')
   \<and> get_response example_files example_script ''/'' Full = Some (Reply 200 ''<h1>home</h1>'')"
proof -
  have p: "path_converter ''x/../data-manager.js''"
    by (simp add: path_converter_def)
  have n: "\<not> climbs ''x/../data-manager.js''"
    by (simp add: climbs_def)
  have r: "resolve (joinpath (project_root example_script) ''js'')
             (split_on CHR ''/'' ''x/../data-manager.js'') = [''srv'', ''js'', ''data-manager.js'']"
    by (simp add: joinpath_def parts_def example_script_def project_root_def parent_def)
  have f: "example_files (resolve (joinpath (project_root example_script) ''js'')
             (split_on CHR ''/'' ''x/../data-manager.js'')) = Some (File ''let d = 1'')"
    unfolding r by (simp add: example_files_def)
  have g: "example_files (project_root example_script @ [''pages'', ''index.html''])
             = Some (File ''<h1>home</h1>'')"
    by (simp add: example_files_def example_script_def project_root_def parent_def)
  note T = route_table_serves [of example_files example_script "''let d = 1''" "''x''"
             "''x/../data-manager.js''"]
  note U = route_table_serves [of example_files example_script "''<h1>home</h1>''" "''x''"
             "''x/../data-manager.js''"]
  note J = conjunct1 [OF mp [OF conjunct2 [OF conjunct2 [OF conjunct2 [OF T]]] p]]
  have j: "get_response example_files example_script (''/js/'' @ ''x/../data-manager.js'') Full
             = Some (Reply 200 ''let d = 1'')"
    using iffD2 [OF J conjI [OF n f]] .
  then have j': "get_response example_files example_script ''/js/x/../data-manager.js'' Full
             = Some (Reply 200 ''let d = 1'')"
    by simp
  have h: "get_response example_files example_script ''/'' Full = Some (Reply 200 ''<h1>home</h1>'')"
    using iffD2 [OF conjunct1 [OF U] g] .
  from p n j' h show ?thesis by (intro conjI)
qed

subsection \<open>Path traversal\<close>

text \<open>
  C3. For a request to \<open>/js/<filename>\<close> or \<open>/data/<filename>\<close> whose
  file name resolves to a path that is not below the base directory, the answer is
  \<open>NotFound\<close>, status 404; and the bytes of any answer that carries a file are
  those of a file below the base directory.
\<close>

theorem traversal_rejected:
  "(path_converter filename \<longrightarrow>
      (\<not> prefix (joinpath (project_root sf) ''js'')
            (resolve (joinpath (project_root sf) ''js'') (split_on CHR ''/'' filename))
         \<longrightarrow> handle_get fs sf (''/js/'' @ filename) = Some (Inl NotFound))
      \<and> (\<not> prefix (joinpath (project_root sf) ''data'')
            (resolve (joinpath (project_root sf) ''data'') (split_on CHR ''/'' filename))
         \<longrightarrow> handle_get fs sf (''/data/'' @ filename) = Some (Inl NotFound))
      \<and> (handle_get fs sf (''/js/'' @ filename) = Some (Inr c) \<longrightarrow>
           (\<exists>rest. fs (joinpath (project_root sf) ''js'' @ rest) = Some (File c)))
      \<and> (handle_get fs sf (''/data/'' @ filename) = Some (Inr c) \<longrightarrow>
           (\<exists>rest. fs (joinpath (project_root sf) ''data'' @ rest) = Some (File c))))
   \<and> status_code (Inl NotFound) = 404"
proof (intro conjI impI)
  show "status_code (Inl NotFound) = 404" by simp
next
  assume p: "path_converter filename"
  {
    assume e: "\<not> prefix (joinpath (project_root sf) ''js'')
            (resolve (joinpath (project_root sf) ''js'') (split_on CHR ''/'' filename))"
    have "js_files fs sf filename = Inl NotFound"
      unfolding js_files_def
      using send_from_directory_not_found send_from_directory_inside(1) e by blast
    then show "handle_get fs sf (''/js/'' @ filename) = Some (Inl NotFound)"
      using handle_get_routes(4) [OF p, of fs sf] by simp
  }
  {
    assume e: "\<not> prefix (joinpath (project_root sf) ''data'')
            (resolve (joinpath (project_root sf) ''data'') (split_on CHR ''/'' filename))"
    have "data_files fs sf filename = Inl NotFound"
      unfolding data_files_def
      using send_from_directory_not_found send_from_directory_inside(1) e by blast
    then show "handle_get fs sf (''/data/'' @ filename) = Some (Inl NotFound)"
      using handle_get_routes(5) [OF p, of fs sf] by simp
  }
  {
    assume "handle_get fs sf (''/js/'' @ filename) = Some (Inr c)"
    then have s: "send_from_directory fs (joinpath (project_root sf) ''js'') filename = Inr c"
      using handle_get_routes(4) [OF p, of fs sf] by (simp add: js_files_def)
    from send_from_directory_inside [OF s]
    show "\<exists>rest. fs (joinpath (project_root sf) ''js'' @ rest) = Some (File c)"
      by (auto simp add: prefix_def)
  }
  {
    assume "handle_get fs sf (''/data/'' @ filename) = Some (Inr c)"
    then have s: "send_from_directory fs (joinpath (project_root sf) ''data'') filename = Inr c"
      using handle_get_routes(5) [OF p, of fs sf] by (simp add: data_files_def)
    from send_from_directory_inside [OF s]
    show "\<exists>rest. fs (joinpath (project_root sf) ''data'' @ rest) = Some (File c)"
      by (auto simp add: prefix_def)
  }
qed

theorem traversal_rejected_witness:
  "path_converter ''../app.py''
   \<and> resolve (joinpath (project_root example_script) ''js'') (split_on CHR ''/'' ''../app.py'')
       = [''srv'', ''app.py'']
   \<and> example_files [''srv'', ''app.py''] = Some (File ''import os'')
   \<and> handle_get example_files example_script ''/js/../app.py'' = Some (Inl NotFound)"
proof -
  have p: "path_converter ''../app.py''"
    by (simp add: path_converter_def)
  have r: "resolve (joinpath (project_root example_script) ''js'')
             (split_on CHR ''/'' ''../app.py'') = [''srv'', ''app.py'']"
    by (simp add: joinpath_def parts_def example_script_def project_root_def parent_def)
  have j: "joinpath (project_root example_script) ''js'' = [''srv'', ''js'']"
    by (simp add: joinpath_def parts_def example_script_def project_root_def parent_def)
  have e: "\<not> prefix (joinpath (project_root example_script) ''js'')
            (resolve (joinpath (project_root example_script) ''js'')
               (split_on CHR ''/'' ''../app.py''))"
    unfolding r j by simp
  have f: "example_files [''srv'', ''app.py''] = Some (File ''import os'')"
    by (simp add: example_files_def)
  note T = conjunct1 [OF traversal_rejected
             [of "''../app.py''" example_script example_files "''import os''"]]
  note K = mp [OF conjunct1 [OF mp [OF T p]] e]
  have k: "handle_get example_files example_script ''/js/../app.py'' = Some (Inl NotFound)"
    using K by simp
  from p r f k show ?thesis by (intro conjI)
qed

subsection \<open>Status codes\<close>

text \<open>
  C6, a status the claim excludes. To a request for \<open>/js/data-manager.js\<close> with
  a \<open>Range\<close> header for the bytes 0 to 2 the answer has status 206 and those
  three bytes; when a conditional header matches the file the answer has status
  304.
\<close>

theorem partial_content_status:
  "get_response example_files example_script ''/js/data-manager.js'' (Partial 0 2)
     = Some (Reply 206 ''let'')
   \<and> map_option reply_status
        (get_response example_files example_script ''/js/data-manager.js'' (Partial 0 2))
       = Some 206
   \<and> map_option reply_status
        (get_response example_files example_script ''/js/data-manager.js'' NotModified)
       = Some 304"
proof -
  have p: "path_converter ''data-manager.js''"
    by (simp add: path_converter_def)
  have n: "\<not> climbs ''data-manager.js''"
    by (simp add: climbs_def)
  have f: "example_files (resolve (joinpath (project_root example_script) ''js'')
             (split_on CHR ''/'' ''data-manager.js'')) = Some (File ''let d = 1'')"
    by (simp add: joinpath_def parts_def example_script_def project_root_def parent_def
          example_files_def)
  from send_relative [OF p, of example_files "joinpath (project_root example_script) ''js''"
         "''let d = 1''"] n f
  have "js_files example_files example_script ''data-manager.js'' = Inr ''let d = 1''"
    by (simp add: js_files_def)
  with handle_get_routes(4) [OF p, of example_files example_script]
  have h: "handle_get example_files example_script ''/js/data-manager.js''
             = Some (Inr ''let d = 1'')"
    by simp
  show ?thesis
    by (simp add: get_response_def h)
qed

text \<open>
  C6. For a request without a \<open>Range\<close> or conditional header that a rule of the
  table matches, the status is 200 or 404. For \<open>/js/<filename>\<close> and
  \<open>/data/<filename>\<close> it is 200 exactly when the file name does not climb and
  resolves to a regular file; and when nothing exists at the path that the file
  name resolves to, the status is 404, whatever the headers.
\<close>

theorem router_status_codes:
  "(get_response fs sf url Full = Some r \<longrightarrow> reply_status r = 200 \<or> reply_status r = 404)
   \<and> (path_converter filename \<longrightarrow>
        (map_option reply_status (get_response fs sf (''/js/'' @ filename) Full) = Some 200)
          = (\<not> climbs filename
             \<and> (\<exists>content.
                  fs (resolve (joinpath (project_root sf) ''js'') (split_on CHR ''/'' filename))
                    = Some (File content)))
        \<and> (map_option reply_status (get_response fs sf (''/data/'' @ filename) Full) = Some 200)
          = (\<not> climbs filename
             \<and> (\<exists>content.
                  fs (resolve (joinpath (project_root sf) ''data'') (split_on CHR ''/'' filename))
                    = Some (File content)))
        \<and> (fs (resolve (joinpath (project_root sf) ''js'') (split_on CHR ''/'' filename)) = None
           \<longrightarrow> map_option reply_status (get_response fs sf (''/js/'' @ filename) decision)
                 = Some 404)
        \<and> (fs (resolve (joinpath (project_root sf) ''data'') (split_on CHR ''/'' filename)) = None
           \<longrightarrow> map_option reply_status (get_response fs sf (''/data/'' @ filename) decision)
                 = Some 404))"
proof (intro conjI impI)
  assume "get_response fs sf url Full = Some r"
  then show "reply_status r = 200 \<or> reply_status r = 404"
    by (auto simp add: get_response_def status_code_Inl split: option.splits sum.splits)
next
  assume p: "path_converter filename"
  show "(map_option reply_status (get_response fs sf (''/js/'' @ filename) Full) = Some 200)
          = (\<not> climbs filename
             \<and> (\<exists>content.
                  fs (resolve (joinpath (project_root sf) ''js'') (split_on CHR ''/'' filename))
                    = Some (File content)))"
    unfolding get_response_full_status
    using handle_get_routes(4) [OF p, of fs sf]
    by (simp add: js_files_def send_relative [OF p])
  show "(map_option reply_status (get_response fs sf (''/data/'' @ filename) Full) = Some 200)
          = (\<not> climbs filename
             \<and> (\<exists>content.
                  fs (resolve (joinpath (project_root sf) ''data'') (split_on CHR ''/'' filename))
                    = Some (File content)))"
    unfolding get_response_full_status
    using handle_get_routes(5) [OF p, of fs sf]
    by (simp add: data_files_def send_relative [OF p])
  {
    assume n: "fs (resolve (joinpath (project_root sf) ''js'') (split_on CHR ''/'' filename)) = None"
    have "js_files fs sf filename = Inl NotFound"
      unfolding js_files_def
      using send_from_directory_not_found send_from_directory_inside(2) n
      by (metis option.distinct(1))
    with handle_get_routes(4) [OF p, of fs sf]
    have "handle_get fs sf (''/js/'' @ filename) = Some (Inl NotFound)"
      by simp
    from get_response_not_found [OF this, of decision]
    show "map_option reply_status (get_response fs sf (''/js/'' @ filename) decision) = Some 404"
      by simp
  }
  {
    assume n: "fs (resolve (joinpath (project_root sf) ''data'') (split_on CHR ''/'' filename)) = None"
    have "data_files fs sf filename = Inl NotFound"
      unfolding data_files_def
      using send_from_directory_not_found send_from_directory_inside(2) n
      by (metis option.distinct(1))
    with handle_get_routes(5) [OF p, of fs sf]
    have "handle_get fs sf (''/data/'' @ filename) = Some (Inl NotFound)"
      by simp
    from get_response_not_found [OF this, of decision]
    show "map_option reply_status (get_response fs sf (''/data/'' @ filename) decision) = Some 404"
      by simp
  }
qed

theorem router_status_codes_witness:
  "path_converter ''nope.json''
   \<and> example_files (resolve (joinpath (project_root example_script) ''data'')
        (split_on CHR ''/'' ''nope.json'')) = None
   \<and> map_option reply_status
        (get_response example_files example_script ''/data/nope.json'' (Partial 0 2))
       = Some 404
   \<and> map_option reply_status
        (get_response example_files example_script ''/data/nope.json'' Full)
       \<noteq> Some 200"
proof -
  have p: "path_converter ''nope.json''"
    by (simp add: path_converter_def)
  have r: "resolve (joinpath (project_root example_script) ''data'')
             (split_on CHR ''/'' ''nope.json'') = [''srv'', ''data'', ''nope.json'']"
    by (simp add: joinpath_def parts_def example_script_def project_root_def parent_def)
  have n: "example_files (resolve (joinpath (project_root example_script) ''data'')
        (split_on CHR ''/'' ''nope.json'')) = None"
    unfolding r by (simp add: example_files_def)
  note T = mp [OF conjunct2 [OF router_status_codes
             [of example_files example_script "''/''" "Abort 404" "''nope.json''" "Partial 0 2"]] p]
  note D = conjunct1 [OF conjunct2 [OF T]]
  note K = mp [OF conjunct2 [OF conjunct2 [OF conjunct2 [OF T]]] n]
  have k: "map_option reply_status
        (get_response example_files example_script ''/data/nope.json'' (Partial 0 2))
       = Some 404"
    using K by simp
  have "map_option reply_status
        (get_response example_files example_script (''/data/'' @ ''nope.json'') Full)
       \<noteq> Some 200"
  proof
    assume a: "map_option reply_status
        (get_response example_files example_script (''/data/'' @ ''nope.json'') Full)
       = Some 200"
    from iffD1 [OF D a] obtain content where
      "example_files (resolve (joinpath (project_root example_script) ''data'')
         (split_on CHR ''/'' ''nope.json'')) = Some (File content)"
      by (elim conjE exE)
    with n show False by simp
  qed
  then have d: "map_option reply_status
        (get_response example_files example_script ''/data/nope.json'' Full)
       \<noteq> Some 200"
    by simp
  from p n k d show ?thesis by (intro conjI)
qed

end
